theory Spec2Isabelle
  imports Main
begin

section \<open>Text as the scripts see it\<close>

text \<open>
  Every script reads one file into a Python \<^verbatim>\<open>str\<close> and rewrites it. A \<^verbatim>\<open>str\<close> is
  modelled as a \<^typ>\<open>string\<close>, one \<^typ>\<open>char\<close> per code point. The character classes
  below follow Python on the ASCII range (code points below 128); a character above
  that range counts as a caseless non-space character.
\<close>

abbreviation TAB :: char where "TAB \<equiv> CHR 0x09"
abbreviation NL :: char where "NL \<equiv> CHR ''\<newline>''"
abbreviation DQ :: char where "DQ \<equiv> CHR 0x22"
abbreviation BQ :: char where "BQ \<equiv> CHR 0x60"
abbreviation SQ :: char where "SQ \<equiv> CHR 0x27"
abbreviation BS :: char where "BS \<equiv> CHR 0x5C"

text \<open>\<^verbatim>\<open>str.isspace\<close>, which is also the class \<^verbatim>\<open>\s\<close> of \<^verbatim>\<open>re\<close> on a \<^verbatim>\<open>str\<close>
  pattern and the default set of \<^verbatim>\<open>str.strip\<close>.\<close>

definition whitespace :: "char list" where
  "whitespace = [CHR 0x09, NL, CHR 0x0B, CHR 0x0C, CHR 0x0D,
                 CHR 0x1C, CHR 0x1D, CHR 0x1E, CHR 0x1F, CHR '' '']"

definition isspace :: "char \<Rightarrow> bool" where
  "isspace c = (c \<in> set whitespace)"

definition ascii_lowercase :: "char list" where
  "ascii_lowercase = ''abcdefghijklmnopqrstuvwxyz''"

definition ascii_uppercase :: "char list" where
  "ascii_uppercase = ''ABCDEFGHIJKLMNOPQRSTUVWXYZ''"



definition to_upper :: "char \<Rightarrow> char" where
  "to_upper c = (case map_of (zip ascii_lowercase ascii_uppercase) c of Some u \<Rightarrow> u | None \<Rightarrow> c)"

definition to_lower :: "char \<Rightarrow> char" where
  "to_lower c = (case map_of (zip ascii_uppercase ascii_lowercase) c of Some l \<Rightarrow> l | None \<Rightarrow> c)"

text \<open>\<^verbatim>\<open>str.capitalize()\<close>: the first character upper-cased, every other character
  lower-cased.\<close>

fun capitalize :: "string \<Rightarrow> string" where
  "capitalize [] = []"
| "capitalize (c # cs) = to_upper c # map to_lower cs"

definition lstrip :: "string \<Rightarrow> string" where
  "lstrip s = dropWhile isspace s"

definition rstrip :: "string \<Rightarrow> string" where
  "rstrip s = rev (dropWhile isspace (rev s))"

definition strip :: "string \<Rightarrow> string" where
  "strip s = rstrip (lstrip s)"

text \<open>\<^verbatim>\<open>s.startswith(t)\<close>, \<^verbatim>\<open>s.endswith(t)\<close> and \<^verbatim>\<open>t in s\<close>.\<close>

fun strip_prefix :: "string \<Rightarrow> string \<Rightarrow> string option" where
  "strip_prefix [] s = Some s"
| "strip_prefix (c # l) [] = None"
| "strip_prefix (c # l) (x # s) = (if c = x then strip_prefix l s else None)"

definition startswith :: "string \<Rightarrow> string \<Rightarrow> bool" where
  "startswith s t = (strip_prefix t s \<noteq> None)"

definition endswith :: "string \<Rightarrow> string \<Rightarrow> bool" where
  "endswith s t = startswith (rev s) (rev t)"

fun contains :: "string \<Rightarrow> string \<Rightarrow> bool" where
  "contains [] t = (t = [])"
| "contains (c # s) t = (startswith (c # s) t \<or> contains s t)"

text \<open>The idiom \<^verbatim>\<open>if x.endswith(','): x = x[:-1]\<close>.\<close>

definition drop_trailing_comma :: "string \<Rightarrow> string" where
  "drop_trailing_comma x = (if endswith x '','' then butlast x else x)"

text \<open>\<^verbatim>\<open>sep.join(xs)\<close>.\<close>

fun join :: "string \<Rightarrow> string list \<Rightarrow> string" where
  "join sep [] = []"
| "join sep [x] = x"
| "join sep (x # y # xs) = x @ sep @ join sep (y # xs)"

text \<open>\<^verbatim>\<open>s.replace(old, new)\<close>: every non-overlapping occurrence of \<^verbatim>\<open>old\<close>, from
  the left; an empty \<^verbatim>\<open>old\<close> matches before every character and at the end.\<close>

function replace :: "string \<Rightarrow> string \<Rightarrow> string \<Rightarrow> string" where
  "replace s old new =
     (if old = [] then new @ concat (map (\<lambda>c. c # new) s)
      else case s of
        [] \<Rightarrow> []
      | c # s' \<Rightarrow>
          if startswith s old then new @ replace (drop (length old) s) old new
          else c # replace s' old new)"
  by pat_completeness auto
termination
  by (relation "measure (\<lambda>(s, old, new). length s)") auto

declare replace.simps [simp del]

section \<open>The regular expressions of the scripts\<close>

text \<open>
  The patterns of the scripts are sequences of literals, single character classes and
  greedy repetitions of a character class, with capturing groups around some of them.
  No group is nested or repeated. A pattern is a list of tokens; \<open>GOpen\<close> and
  \<open>GClose\<close> are the parentheses of a capturing group.
\<close>

datatype cls =
    Ws                    \<comment> \<open>\<^verbatim>\<open>\s\<close>\<close>
  | Only "char list"      \<comment> \<open>\<^verbatim>\<open>[...]\<close>, or one escaped character such as \<^verbatim>\<open>\t\<close>\<close>
  | Not "char list"       \<comment> \<open>\<^verbatim>\<open>[^...]\<close>\<close>
  | NotWs "char list"     \<comment> \<open>\<^verbatim>\<open>[^...\s]\<close>\<close>
  | Dot                   \<comment> \<open>\<^verbatim>\<open>.\<close> without DOTALL\<close>

fun accepts :: "cls \<Rightarrow> char \<Rightarrow> bool" where
  "accepts Ws c = isspace c"
| "accepts (Only cs) c = (c \<in> set cs)"
| "accepts (Not cs) c = (c \<notin> set cs)"
| "accepts (NotWs cs) c = (c \<notin> set cs \<and> \<not> isspace c)"
| "accepts Dot c = (c \<noteq> NL)"

datatype tok =
    L string      \<comment> \<open>a run of literal characters\<close>
  | One cls       \<comment> \<open>one character of a class\<close>
  | Plus cls      \<comment> \<open>\<^verbatim>\<open>c+\<close>, greedy\<close>
  | Star cls      \<comment> \<open>\<^verbatim>\<open>c*\<close>, greedy\<close>
  | Opt string    \<comment> \<open>\<^verbatim>\<open>x?\<close>, greedy\<close>
  | GOpen
  | GClose
  | Eol           \<comment> \<open>\<^verbatim>\<open>$\<close>: at the end, or before a final newline\<close>

text \<open>The backtracking of a greedy repetition: the longest run first, then shorter
  ones, down to the least count \<open>lo\<close>; the first count whose continuation matches
  wins.\<close>

fun first_down :: "(nat \<Rightarrow> 'a option) \<Rightarrow> nat \<Rightarrow> nat \<Rightarrow> 'a option" where
  "first_down f lo 0 = (if lo = 0 then f 0 else None)"
| "first_down f lo (Suc n) =
     (if Suc n < lo then None
      else case f (Suc n) of Some y \<Rightarrow> Some y | None \<Rightarrow> first_down f lo n)"

definition seg :: "string \<Rightarrow> (string list \<times> string) option \<Rightarrow> (string list \<times> string) option" where
  "seg w r = map_option (\<lambda>(segs, rest). (w # segs, rest)) r"

text \<open>\<open>rx_match p s\<close> matches \<open>p\<close> at the start of \<open>s\<close>. A match is the text each
  token consumed, in order, and the text left over.\<close>

fun rx_match :: "tok list \<Rightarrow> string \<Rightarrow> (string list \<times> string) option" where
  "rx_match [] s = Some ([], s)"
| "rx_match (L l # ts) s =
     (case strip_prefix l s of None \<Rightarrow> None | Some s' \<Rightarrow> seg l (rx_match ts s'))"
| "rx_match (One k # ts) s =
     (case s of [] \<Rightarrow> None
      | c # s' \<Rightarrow> if accepts k c then seg [c] (rx_match ts s') else None)"
| "rx_match (Plus k # ts) s =
     first_down (\<lambda>n. seg (take n s) (rx_match ts (drop n s))) 1
       (length (takeWhile (accepts k) s))"
| "rx_match (Star k # ts) s =
     first_down (\<lambda>n. seg (take n s) (rx_match ts (drop n s))) 0
       (length (takeWhile (accepts k) s))"
| "rx_match (Opt l # ts) s =
     (case (case strip_prefix l s of None \<Rightarrow> None | Some s' \<Rightarrow> seg l (rx_match ts s')) of
        Some y \<Rightarrow> Some y
      | None \<Rightarrow> seg [] (rx_match ts s))"
| "rx_match (GOpen # ts) s = seg [] (rx_match ts s)"
| "rx_match (GClose # ts) s = seg [] (rx_match ts s)"
| "rx_match (Eol # ts) s = (if s = [] \<or> s = [NL] then seg [] (rx_match ts s) else None)"

text \<open>The captured groups of a match, in the order of their opening parentheses:
  \<^verbatim>\<open>m.group(k)\<close> is \<open>group g k\<close> for \<open>g\<close> the list computed here.\<close>

fun groups_of :: "tok list \<Rightarrow> string list \<Rightarrow> string option \<Rightarrow> string list" where
  "groups_of (GOpen # ts) (w # ws) cur = groups_of ts ws (Some [])"
| "groups_of (GClose # ts) (w # ws) cur =
     (case cur of Some g \<Rightarrow> g # groups_of ts ws None | None \<Rightarrow> groups_of ts ws None)"
| "groups_of (t # ts) (w # ws) cur = groups_of ts ws (map_option (\<lambda>g. g @ w) cur)"
| "groups_of _ _ cur = []"

definition group :: "string list \<Rightarrow> nat \<Rightarrow> string" where
  "group g k = g ! (k - 1)"

text \<open>\<^verbatim>\<open>re.sub(p, f, s)\<close>: the leftmost match, then the next one after it, each replaced
  by \<open>f\<close> of its groups. After an empty match the next character is copied and the
  scan moves on (no pattern of the scripts can match the empty string).\<close>

function re_sub :: "tok list \<Rightarrow> (string list \<Rightarrow> string) \<Rightarrow> string \<Rightarrow> string" where
  "re_sub p f s =
     (case rx_match p s of
        Some (segs, rest) \<Rightarrow>
          if length rest < length s then f (groups_of p segs None) @ re_sub p f rest
          else f (groups_of p segs None) @ (case s of [] \<Rightarrow> [] | c # s' \<Rightarrow> c # re_sub p f s')
      | None \<Rightarrow> (case s of [] \<Rightarrow> [] | c # s' \<Rightarrow> c # re_sub p f s'))"
  by pat_completeness auto
termination
  by (relation "measure (\<lambda>(p, f, s). length s)") auto

declare re_sub.simps [simp del]

text \<open>\<^verbatim>\<open>re.search(p, s)\<close>: the groups of the leftmost match, if any.\<close>

fun re_search :: "tok list \<Rightarrow> string \<Rightarrow> string list option" where
  "re_search p [] = map_option (\<lambda>(segs, rest). groups_of p segs None) (rx_match p [])"
| "re_search p (c # s) =
     (case rx_match p (c # s) of
        Some (segs, rest) \<Rightarrow> Some (groups_of p segs None)
      | None \<Rightarrow> re_search p s)"

section \<open>The signature rewriter (src/fix_method_signatures.py)\<close>

definition fetchComments_pat :: "tok list" where
  "fetchComments_pat =
     [L ''await linearClient.fetchComments({'', Star Ws, L ''filter:'', Star Ws, L ''{'', Star Ws,
      L ''issue:'', Star Ws, L ''{'', Star Ws, L ''id:'', Star Ws, L ''{'', Star Ws, L ''eq:'', Star Ws,
      GOpen, Plus (Not ''}''), GClose,
      Star Ws, L ''}'', Star Ws, L ''}'', Star Ws, L ''}'', Star Ws, L ''})'']"

definition fetchComments_repl :: "string list \<Rightarrow> string" where
  "fetchComments_repl g = ''await linearClient.fetchComments('' @ group g 1 @ '')''"

definition fetchComment_pat :: "tok list" where
  "fetchComment_pat =
     [L ''await linearClient.fetchComment({'', Star Ws, L ''id:'', Star Ws,
      GOpen, Plus (Not ''}''), GClose, Star Ws, L ''})'']"

definition fetchComment_repl :: "string list \<Rightarrow> string" where
  "fetchComment_repl g = ''await linearClient.fetchComment('' @ group g 1 @ '')''"

definition fetchWorkflowStates_pat :: "tok list" where
  "fetchWorkflowStates_pat =
     [L ''await linearClient.fetchWorkflowStates({'', Star Ws, L ''filter:'', Star Ws, L ''{'', Star Ws,
      L ''team:'', Star Ws, L ''{'', Star Ws, L ''id:'', Star Ws, L ''{'', Star Ws, L ''eq:'', Star Ws,
      GOpen, Plus (Not ''}''), GClose,
      Star Ws, L ''}'', Star Ws, L ''}'', Star Ws, L ''}'', Star Ws, L ''})'']"

definition fetchWorkflowStates_repl :: "string list \<Rightarrow> string" where
  "fetchWorkflowStates_repl g = ''await linearClient.fetchWorkflowStates('' @ group g 1 @ '')''"

definition parent_pat :: "tok list" where
  "parent_pat = [L ''.parent'', GOpen, One (Not ''I''), GClose]"

definition parent_repl :: "string list \<Rightarrow> string" where
  "parent_repl g = ''.parentId'' @ group g 1"

definition fix1_fetchComments :: "string \<Rightarrow> string" where
  "fix1_fetchComments content = re_sub fetchComments_pat fetchComments_repl content"

definition fix2_fetchComment :: "string \<Rightarrow> string" where
  "fix2_fetchComment content = re_sub fetchComment_pat fetchComment_repl content"

definition fix3_fetchWorkflowStates :: "string \<Rightarrow> string" where
  "fix3_fetchWorkflowStates content = re_sub fetchWorkflowStates_pat fetchWorkflowStates_repl content"

definition fix4_parent :: "string \<Rightarrow> string" where
  "fix4_parent content = re_sub parent_pat parent_repl content"

text \<open>The script: the four substitutions in the order of the file, each on the result
  of the one before.\<close>

definition fix_method_signatures :: "string \<Rightarrow> string" where
  "fix_method_signatures content =
     fix4_parent (fix3_fetchWorkflowStates (fix2_fetchComment (fix1_fetchComments content)))"

section \<open>The pattern-based call/branch rewriter (src/fix_create_activity.py)\<close>

text \<open>The three patterns and their replacement functions. The flag DOTALL only
  changes the meaning of \<^verbatim>\<open>.\<close>, which no pattern of this script uses. The counter
  \<^verbatim>\<open>fixes_applied\<close> and the printed counts are diagnostics; they do not reach the
  text and are left out.\<close>

definition pattern1 :: "tok list" where
  "pattern1 =
     [GOpen, Plus (Only [TAB]), GClose,
      L ''const result = await linearClient.createAgentActivity({'', Plus Ws,
      L ''agentSessionId: '', GOpen, Plus (Not '',''), GClose, L '','', Plus Ws,
      L ''content: {'', Plus Ws,
      L (''type: '' @ [DQ]), GOpen, Plus (Not [DQ]), GClose, L (DQ # '',''), Plus Ws,
      L ''body: '', GOpen, Plus (Not ''}''), GClose, L ''},'', Plus Ws,
      L ''});'', Plus Ws,
      L ''if (result.success) {'', Plus Ws,
      GOpen, L ''console.log('', Plus (Not '')''), L '');'', Plus Ws, GClose,
      L ''} else {'', Plus (Not ''}''), L ''result'', Plus (Not ''}''), L ''}'']"

definition fix_inline_with_result :: "string list \<Rightarrow> string" where
  "fix_inline_with_result m =
     (let indent = group m 1;
          session_id = group m 2;
          type_str = group m 3;
          body = drop_trailing_comma (strip (group m 4));
          log_line = group m 5;
          type_enum = capitalize type_str
      in indent @ ''await linearClient.createAgentActivity('' @ session_id @ '', {'' @ [NL] @
         indent @ [TAB] @ ''type: AgentActivityContentType.'' @ type_enum @ '','' @ [NL] @
         indent @ [TAB] @ ''body: '' @ body @ '','' @ [NL] @
         indent @ ''});'' @ [NL] @
         [NL] @
         indent @ log_line)"

definition pattern2 :: "tok list" where
  "pattern2 =
     [GOpen, Plus (Only [TAB]), GClose,
      L ''await linearClient.createAgentActivity({'', Plus Ws,
      L ''agentSessionId: '', GOpen, Plus (Not '',''), GClose, L '','', Plus Ws,
      L ''content: {'', Plus Ws,
      L (''type: '' @ [DQ]), GOpen, Plus (Not [DQ]), GClose, L (DQ # '',''), Plus Ws,
      L ''body: '', GOpen, Plus (Not ''}''), GClose, L ''},'', Plus Ws,
      L ''});'']"

definition fix_await_no_result :: "string list \<Rightarrow> string" where
  "fix_await_no_result m =
     (let indent = group m 1;
          session_id = group m 2;
          type_str = group m 3;
          body_content = group m 4;
          type_enum = capitalize type_str
      in indent @ ''await linearClient.createAgentActivity('' @ session_id @ '', {'' @ [NL] @
         indent @ [TAB] @ ''type: AgentActivityContentType.'' @ type_enum @ '','' @ [NL] @
         indent @ [TAB] @ ''body: '' @ body_content @ [NL] @
         indent @ ''});'')"

definition pattern3 :: "tok list" where
  "pattern3 =
     [GOpen, Plus (Only [TAB]), GClose,
      L ''const activityInput = {'', Plus Ws,
      L ''agentSessionId: '', GOpen, Plus (Not '',''), GClose, L '','', Plus Ws,
      L ''content: {'', Plus Ws,
      L (''type: '' @ [DQ]), GOpen, Plus (Not [DQ]), GClose, L (DQ # '',''), Plus Ws,
      L ''body: '', GOpen, Plus (Not ''}''), GClose, L ''},'', Plus Ws,
      L ''};'', Plus Ws,
      L ''const result = await linearClient.createAgentActivity(activityInput);'', Plus Ws,
      L ''if (result.success) {'', Plus Ws,
      GOpen, L ''console.log('', Plus (Not '')''), L '');'', Plus Ws, GClose,
      L ''} else {'', Plus (Not ''}''), L ''result'', Plus (Not ''}''), L ''}'']"

definition fix_activity_input :: "string list \<Rightarrow> string" where
  "fix_activity_input m =
     (let indent = group m 1;
          session_id = group m 2;
          type_str = group m 3;
          body = drop_trailing_comma (strip (group m 4));
          log_line = group m 5;
          type_enum = capitalize type_str
      in indent @ ''await linearClient.createAgentActivity('' @ session_id @ '', {'' @ [NL] @
         indent @ [TAB] @ ''type: AgentActivityContentType.'' @ type_enum @ '','' @ [NL] @
         indent @ [TAB] @ ''body: '' @ body @ '','' @ [NL] @
         indent @ ''});'' @ [NL] @
         indent @ log_line)"

text \<open>The script: the three substitutions in the order of the file, each on the result
  of the one before.\<close>

definition fix_create_activity :: "string \<Rightarrow> string" where
  "fix_create_activity content =
     re_sub pattern3 fix_activity_input
       (re_sub pattern2 fix_await_no_result
          (re_sub pattern1 fix_inline_with_result content))"

section \<open>The literal-block rewriter (src/fix_last_three.py)\<close>

text \<open>The three stored (old, new) pairs, character for character.\<close>

definition old1 :: string where
  "old1 =
     ''await linearClient.createAgentActivity({'' @
     [NL, TAB, TAB, TAB, TAB, TAB, TAB, TAB, TAB, TAB] @
     ''agentSessionId: session.linearAgentActivitySessionId,'' @
     [NL, TAB, TAB, TAB, TAB, TAB, TAB, TAB, TAB, TAB] @ ''content: {'' @
     [NL, TAB, TAB, TAB, TAB, TAB, TAB, TAB, TAB, TAB, TAB] @ ''type: '' @ [DQ] @
     ''response'' @ [DQ] @ '','' @ [NL, TAB, TAB, TAB, TAB, TAB, TAB, TAB, TAB, TAB, TAB] @
     ''body: '' @ [BQ] @ ''**Repository Removed from Configuration**'' @ [BS] @ ''n'' @ [BS] @
     ''nThis repository ('' @ [BS, BQ] @ ''${repo.name}'' @ [BS, BQ] @
     '') has been removed from the Cyrus configuration. All active sessions for this repository have been stopped.'' @
     [BS] @ ''n'' @ [BS] @
     ''nIf you need to continue working on this issue, please contact your administrator to restore the repository configuration.'' @
     [BQ] @ '','' @ [NL, TAB, TAB, TAB, TAB, TAB, TAB, TAB, TAB, TAB] @ ''},'' @
     [NL, TAB, TAB, TAB, TAB, TAB, TAB, TAB, TAB] @ ''});''"

definition new1 :: string where
  "new1 =
     ''await linearClient.createAgentActivity(session.linearAgentActivitySessionId, {'' @
     [NL, TAB, TAB, TAB, TAB, TAB, TAB, TAB, TAB, TAB] @
     ''type: AgentActivityContentType.Response,'' @
     [NL, TAB, TAB, TAB, TAB, TAB, TAB, TAB, TAB, TAB] @ ''body: '' @ [BQ] @
     ''**Repository Removed from Configuration**'' @ [BS] @ ''n'' @ [BS] @
     ''nThis repository ('' @ [BS, BQ] @ ''${repo.name}'' @ [BS, BQ] @
     '') has been removed from the Cyrus configuration. All active sessions for this repository have been stopped.'' @
     [BS] @ ''n'' @ [BS] @
     ''nIf you need to continue working on this issue, please contact your administrator to restore the repository configuration.'' @
     [BQ] @ '','' @ [NL, TAB, TAB, TAB, TAB, TAB, TAB, TAB, TAB] @ ''});''"

definition old2 :: string where
  "old2 =
     ''const activityInput = {'' @ [NL, TAB, TAB, TAB, TAB] @
     ''agentSessionId: linearAgentActivitySessionId,'' @ [NL, TAB, TAB, TAB, TAB] @
     ''content: {'' @ [NL, TAB, TAB, TAB, TAB, TAB] @ ''type: '' @ [DQ] @ ''thought'' @ [DQ] @
     '','' @ [NL, TAB, TAB, TAB, TAB, TAB] @ ''body: '' @ [BQ] @ ''Entering '' @ [SQ] @
     ''${selectedPromptType}'' @ [SQ] @ '' mode because of the '' @ [SQ] @
     ''${triggerLabel}'' @ [SQ] @ '' label. I'' @ [SQ] @
     ''ll follow the ${selectedPromptType} process...'' @ [BQ] @ '','' @
     [NL, TAB, TAB, TAB, TAB] @ ''},'' @ [NL, TAB, TAB, TAB] @ ''};'' @
     [NL, NL, TAB, TAB, TAB] @
     ''const result = await linearClient.createAgentActivity(activityInput);'' @
     [NL, TAB, TAB, TAB] @ ''if (result.success) {'' @ [NL, TAB, TAB, TAB, TAB] @
     ''console.log('' @ [NL, TAB, TAB, TAB, TAB, TAB, BQ] @
     ''[EdgeWorker] Posted system prompt selection thought for session ${linearAgentActivitySessionId} (${selectedPromptType} mode)'' @
     [BQ] @ '','' @ [NL, TAB, TAB, TAB, TAB] @ '');'' @ [NL, TAB, TAB, TAB] @ ''} else {'' @
     [NL, TAB, TAB, TAB, TAB] @ ''console.error('' @ [NL, TAB, TAB, TAB, TAB, TAB, BQ] @
     ''[EdgeWorker] Failed to post system prompt selection thought:'' @ [BQ] @ '','' @
     [NL, TAB, TAB, TAB, TAB, TAB] @ ''result,'' @ [NL, TAB, TAB, TAB, TAB] @ '');'' @
     [NL, TAB, TAB, TAB] @ ''}''"

definition new2 :: string where
  "new2 =
     ''await linearClient.createAgentActivity(linearAgentActivitySessionId, {'' @
     [NL, TAB, TAB, TAB, TAB] @ ''type: AgentActivityContentType.Thought,'' @
     [NL, TAB, TAB, TAB, TAB] @ ''body: '' @ [BQ] @ ''Entering '' @ [SQ] @
     ''${selectedPromptType}'' @ [SQ] @ '' mode because of the '' @ [SQ] @
     ''${triggerLabel}'' @ [SQ] @ '' label. I'' @ [SQ] @
     ''ll follow the ${selectedPromptType} process...'' @ [BQ] @ '','' @ [NL, TAB, TAB, TAB] @
     ''});'' @ [NL, TAB, TAB, TAB] @ ''console.log('' @ [NL, TAB, TAB, TAB, TAB, BQ] @
     ''[EdgeWorker] Posted system prompt selection thought for session ${linearAgentActivitySessionId} (${selectedPromptType} mode)'' @
     [BQ] @ '','' @ [NL, TAB, TAB, TAB] @ '');''"

definition old3 :: string where
  "old3 =
     ''const activityInput = {'' @ [NL, TAB, TAB, TAB, TAB] @
     ''agentSessionId: linearAgentActivitySessionId,'' @ [NL, TAB, TAB, TAB, TAB] @
     ''content: {'' @ [NL, TAB, TAB, TAB, TAB, TAB] @ ''type: '' @ [DQ] @ ''thought'' @ [DQ] @
     '','' @ [NL, TAB, TAB, TAB, TAB, TAB] @ ''body: message,'' @ [NL, TAB, TAB, TAB, TAB] @
     ''},'' @ [NL, TAB, TAB, TAB] @ ''};'' @ [NL, NL, TAB, TAB, TAB] @
     ''const result = await linearClient.createAgentActivity(activityInput);'' @
     [NL, TAB, TAB, TAB] @ ''if (result.success) {'' @ [NL, TAB, TAB, TAB, TAB] @
     ''console.log('' @ [NL, TAB, TAB, TAB, TAB, TAB, BQ] @
     ''[EdgeWorker] Posted instant prompted acknowledgment thought for session ${linearAgentActivitySessionId} (streaming: ${isStreaming})'' @
     [BQ] @ '','' @ [NL, TAB, TAB, TAB, TAB] @ '');'' @ [NL, TAB, TAB, TAB] @ ''} else {'' @
     [NL, TAB, TAB, TAB, TAB] @ ''console.error('' @ [NL, TAB, TAB, TAB, TAB, TAB, BQ] @
     ''[EdgeWorker] Failed to post instant prompted acknowledgment:'' @ [BQ] @ '','' @
     [NL, TAB, TAB, TAB, TAB, TAB] @ ''result,'' @ [NL, TAB, TAB, TAB, TAB] @ '');'' @
     [NL, TAB, TAB, TAB] @ ''}''"

definition new3 :: string where
  "new3 =
     ''await linearClient.createAgentActivity(linearAgentActivitySessionId, {'' @
     [NL, TAB, TAB, TAB, TAB] @ ''type: AgentActivityContentType.Thought,'' @
     [NL, TAB, TAB, TAB, TAB] @ ''body: message,'' @ [NL, TAB, TAB, TAB] @ ''});'' @
     [NL, TAB, TAB, TAB] @ ''console.log('' @ [NL, TAB, TAB, TAB, TAB, BQ] @
     ''[EdgeWorker] Posted instant prompted acknowledgment thought for session ${linearAgentActivitySessionId} (streaming: ${isStreaming})'' @
     [BQ] @ '','' @ [NL, TAB, TAB, TAB] @ '');''"

text \<open>What a fix prints: \<open>Fixed k\<close> stands for the line that begins with a check mark
  and \<^verbatim>\<open>Fixed #k\<close>, \<open>Could_not_find k\<close> for the line that begins with a cross and
  \<^verbatim>\<open>Could not find pattern #k\<close>. The printed occurrence counts before and after are
  left out.\<close>

datatype report = Fixed nat | Could_not_find nat

text \<open>One fix: \<^verbatim>\<open>if old in content: content = content.replace(old, new); print(...)
  else: print(...)\<close>, on the content and the console so far.\<close>

definition apply_fix :: "nat \<Rightarrow> string \<Rightarrow> string \<Rightarrow> string \<times> report list \<Rightarrow> string \<times> report list" where
  "apply_fix k old new st =
     (case st of (content, console) \<Rightarrow>
        if contains content old then (replace content old new, console @ [Fixed k])
        else (content, console @ [Could_not_find k]))"

definition fix_last_three :: "string \<Rightarrow> string \<times> report list" where
  "fix_last_three content =
     apply_fix 3 old3 new3 (apply_fix 2 old2 new2 (apply_fix 1 old1 new1 (content, [])))"

section \<open>The line-scanning rewriter (src/packages/edge-worker/src/fix_all_create_activity.py)\<close>

text \<open>
  The script walks \<^verbatim>\<open>lines\<close> (the result of \<^verbatim>\<open>readlines\<close>) with a cursor \<^verbatim>\<open>i\<close>. When a
  line opens a call idiom, the lines from that line up to the cursor reached by the
  inner loops are deleted, the new lines are inserted in their place and the cursor is
  set behind them. The model keeps the lines before the cursor as output and the lines
  from the cursor on as the list still to scan; an inner loop returns what it read and
  the lines it left.

  A Python variable that holds \<^verbatim>\<open>None\<close> or a string is a \<^typ>\<open>string option\<close>. The
  script's variables live at module level, so a variable assigned while one idiom is
  rewritten is still bound when the next idiom is rewritten. All of them are assigned
  again before they are read, except \<^verbatim>\<open>success_log\<close>: it is carried from idiom to idiom
  as a \<open>binding\<close>.
\<close>

datatype error = NameError | AttributeError

datatype 'a binding = Unbound | Bound 'a

definition session_id_pat :: "tok list" where
  "session_id_pat = [L ''agentSessionId:'', Star Ws, GOpen, Plus (NotWs '',''), GClose]"

definition extract_session_id :: "string \<Rightarrow> string option" where
  "extract_session_id line =
     (case re_search session_id_pat line of Some m \<Rightarrow> Some (group m 1) | None \<Rightarrow> None)"

definition type_pat :: "tok list" where
  "type_pat = [L ''type:'', Star Ws, L [DQ], GOpen, Plus (Not [DQ]), GClose, L [DQ]]"

definition extract_type_of :: "string \<Rightarrow> string option" where
  "extract_type_of line =
     (case re_search type_pat line of
        Some m \<Rightarrow> (let t = group m 1 in Some (capitalize t))
      | None \<Rightarrow> None)"

definition body_pat :: "tok list" where
  "body_pat = [L ''body:'', Star Ws, GOpen, Plus Dot, GClose]"

definition extract_body_start :: "string \<Rightarrow> string option" where
  "extract_body_start line =
     (case re_search body_pat line of Some m \<Rightarrow> Some (strip (group m 1)) | None \<Rightarrow> None)"

text \<open>The fields read from one idiom.\<close>

record fields =
  session_id :: "string option"
  type_val :: "string option"
  body_lines :: "string list"
  body_started :: bool

definition no_fields :: fields where
  "no_fields = \<lparr>session_id = None, type_val = None, body_lines = [], body_started = False\<rparr>"

text \<open>The branch for a line that holds \<^verbatim>\<open>body:\<close>, the same in all three patterns.
  \<^verbatim>\<open>body_start.endswith(',')\<close> raises AttributeError when \<^verbatim>\<open>extract_body_start\<close>
  returned \<^verbatim>\<open>None\<close>.\<close>

definition read_body_start :: "fields \<Rightarrow> string \<Rightarrow> error + fields" where
  "read_body_start fs line =
     (case extract_body_start line of
        None \<Rightarrow> Inl AttributeError
      | Some body_start \<Rightarrow>
          Inr (fs\<lparr>body_lines := body_lines fs @ [drop_trailing_comma body_start],
                  body_started := True\<rparr>))"

text \<open>The loop that reads the object parameter of patterns 1 and 3 (the two loops are
  the same text), up to and including the line that holds \<^verbatim>\<open>});\<close>.\<close>

fun read_call :: "fields \<Rightarrow> string list \<Rightarrow> error + (fields \<times> string list)" where
  "read_call fs [] = Inr (fs, [])"
| "read_call fs (l # ls) =
     (if contains l ''agentSessionId:'' then read_call (fs\<lparr>session_id := extract_session_id l\<rparr>) ls
      else if contains l ''type:'' then read_call (fs\<lparr>type_val := extract_type_of l\<rparr>) ls
      else if contains l ''body:'' then
        (case read_body_start fs l of Inl e \<Rightarrow> Inl e | Inr fs' \<Rightarrow> read_call fs' ls)
      else if body_started fs \<and> \<not> startswith (strip l) ''}'' then
        (let body_line = drop_trailing_comma (strip l)
         in read_call (if body_line \<noteq> [] then fs\<lparr>body_lines := body_lines fs @ [body_line]\<rparr> else fs) ls)
      else if contains l ''});'' then Inr (fs, ls)
      else read_call fs ls)"

text \<open>The loop of pattern 1 over the lines after \<^verbatim>\<open>if (result.success)\<close>. \<open>seen\<close> holds
  the lines between that line and the cursor, the range the search for
  \<^verbatim>\<open>console.log\<close> runs over.\<close>

fun scan_branch1 :: "int \<Rightarrow> bool \<Rightarrow> string list \<Rightarrow> string option \<Rightarrow> string list \<Rightarrow> string option \<times> string list" where
  "scan_branch1 brace_count else_found seen success_log [] = (success_log, [])"
| "scan_branch1 brace_count else_found seen success_log (l # ls) =
     (let bc = (if contains l ''{'' then brace_count + 1 else brace_count) in
      if contains l ''}'' then
        if bc - 1 = 0 \<and> \<not> else_found then
          (let log = (case find (\<lambda>x. contains x ''console.log'') seen of
                        Some x \<Rightarrow> Some x | None \<Rightarrow> success_log)
           in case ls of
                [] \<Rightarrow> (log, [])
              | l' # ls' \<Rightarrow>
                  if contains l' ''else'' then scan_branch1 0 True (seen @ [l, l']) log ls'
                  else (log, l' # ls'))
        else if bc - 1 = 0 \<and> else_found then (success_log, ls)
        else scan_branch1 (bc - 1) else_found (seen @ [l]) success_log ls
      else scan_branch1 bc else_found (seen @ [l]) success_log ls)"

text \<open>\<^verbatim>\<open>f'{x}'\<close> for a value that may be \<^verbatim>\<open>None\<close>.\<close>

definition fmt :: "string option \<Rightarrow> string" where
  "fmt x = (case x of None \<Rightarrow> ''None'' | Some s \<Rightarrow> s)"

definition indent_of :: "string \<Rightarrow> nat" where
  "indent_of line = length line - length (lstrip line)"

text \<open>The four lines every pattern builds (pattern 1 adds a blank line).\<close>

definition call_lines :: "nat \<Rightarrow> fields \<Rightarrow> string list" where
  "call_lines indent fs =
     (let body_str = (if body_lines fs \<noteq> [] then join '' '' (body_lines fs) else ''body'');
          indent_str = replicate (indent div 4) TAB
      in [indent_str @ ''await linearClient.createAgentActivity('' @ fmt (session_id fs) @ '', {'' @ [NL],
          indent_str @ [TAB] @ ''type: AgentActivityContentType.'' @ fmt (type_val fs) @ '','' @ [NL],
          indent_str @ [TAB] @ ''body: '' @ body_str @ '','' @ [NL],
          indent_str @ ''});'' @ [NL]])"

text \<open>\<^verbatim>\<open>if success_log: new_lines.append(success_log)\<close>: reading the name raises
  NameError when it was never assigned.\<close>

definition append_log :: "string option binding \<Rightarrow> string list \<Rightarrow> error + string list" where
  "append_log success_log new_lines =
     (case success_log of
        Unbound \<Rightarrow> Inl NameError
      | Bound None \<Rightarrow> Inr new_lines
      | Bound (Some l) \<Rightarrow> Inr (if l \<noteq> [] then new_lines @ [l] else new_lines))"

text \<open>Pattern 1, from the opening line to the splice: the new lines, the lines left
  to scan and the binding of \<^verbatim>\<open>success_log\<close> afterwards. \<^verbatim>\<open>success_log\<close> is assigned
  only inside the branch for \<^verbatim>\<open>if (result.success)\<close>.\<close>

definition pattern1_step ::
  "string option binding \<Rightarrow> string \<Rightarrow> string list \<Rightarrow> error + (string list \<times> string list \<times> string option binding)" where
  "pattern1_step success_log line rest =
     (case read_call no_fields rest of
        Inl e \<Rightarrow> Inl e
      | Inr (fs, rest1) \<Rightarrow>
          (let (log, rest2) =
                 (case rest1 of
                    [] \<Rightarrow> (success_log, [])
                  | l # ls \<Rightarrow>
                      if contains l ''if (result.success)'' then
                        (case scan_branch1 0 False [] None ls of (sl, r) \<Rightarrow> (Bound sl, r))
                      else (success_log, l # ls))
           in case append_log log (call_lines (indent_of line) fs @ [[NL]]) of
                Inl e \<Rightarrow> Inl e
              | Inr new_lines \<Rightarrow> Inr (new_lines, rest2, log)))"

text \<open>Pattern 2. The loop over the definition of \<^verbatim>\<open>activityInput\<close> stops at the line
  that matches \<^verbatim>\<open>^\s*\};?\s*$\<close>; a pattern that begins with \<^verbatim>\<open>^\<close> can only match at
  the start of the line.\<close>

definition closing_pat :: "tok list" where
  "closing_pat = [Star Ws, L ''}'', Opt '';'', Star Ws, Eol]"

fun read_input :: "fields \<Rightarrow> string list \<Rightarrow> error + (fields \<times> string list)" where
  "read_input fs [] = Inr (fs, [])"
| "read_input fs (l # ls) =
     (if rx_match closing_pat l \<noteq> None then Inr (fs, l # ls)
      else if contains l ''agentSessionId:'' then read_input (fs\<lparr>session_id := extract_session_id l\<rparr>) ls
      else if contains l ''type:'' then read_input (fs\<lparr>type_val := extract_type_of l\<rparr>) ls
      else if contains l ''body:'' then
        (case read_body_start fs l of Inl e \<Rightarrow> Inl e | Inr fs' \<Rightarrow> read_input fs' ls)
      else if body_started fs then
        (let body_line = strip l
         in read_input
              (if body_line \<noteq> [] \<and> \<not> startswith body_line ''}''
               then fs\<lparr>body_lines := body_lines fs @ [drop_trailing_comma body_line]\<rparr> else fs) ls)
      else read_input fs ls)"

fun skip_else :: "int \<Rightarrow> string list \<Rightarrow> string list" where
  "skip_else brace_count [] = []"
| "skip_else brace_count (l # ls) =
     (let bc = (if contains l ''{'' then brace_count + 1 else brace_count) in
      if contains l ''}'' then (if bc - 1 = 0 then ls else skip_else (bc - 1) ls)
      else skip_else bc ls)"

fun scan_branch2 :: "int \<Rightarrow> string option \<Rightarrow> string list \<Rightarrow> string option \<times> string list" where
  "scan_branch2 brace_count success_log [] = (success_log, [])"
| "scan_branch2 brace_count success_log (l # ls) =
     (let bc = (if contains l ''{'' then brace_count + 1 else brace_count);
          log = (if contains l ''console.log'' then Some l else success_log) in
      if contains l ''}'' then
        if bc - 1 = 0 then
          (case ls of
             [] \<Rightarrow> (log, [])
           | l' # ls' \<Rightarrow> if contains l' ''else'' then (log, skip_else 0 ls') else (log, l' # ls'))
        else scan_branch2 (bc - 1) log ls
      else scan_branch2 bc log ls)"

text \<open>The three optional skips after the definition: the closing line, a blank line,
  the line of the call.\<close>

definition skip_closing :: "string list \<Rightarrow> string list" where
  "skip_closing ls = (case ls of [] \<Rightarrow> [] | l # ls' \<Rightarrow> ls')"

definition skip_blank :: "string list \<Rightarrow> string list" where
  "skip_blank ls = (case ls of [] \<Rightarrow> [] | l # ls' \<Rightarrow> if strip l = [] then ls' else l # ls')"

definition skip_call :: "string list \<Rightarrow> string list" where
  "skip_call ls =
     (case ls of [] \<Rightarrow> []
      | l # ls' \<Rightarrow>
          if contains l ''const result = await linearClient.createAgentActivity(activityInput)''
          then ls' else l # ls')"

definition pattern2_step ::
  "string \<Rightarrow> string list \<Rightarrow> error + (string list \<times> string list \<times> string option binding)" where
  "pattern2_step line rest =
     (case read_input no_fields rest of
        Inl e \<Rightarrow> Inl e
      | Inr (fs, rest1) \<Rightarrow>
          (let rest2 = skip_call (skip_blank (skip_closing rest1));
               (log, rest3) =
                 (case rest2 of
                    [] \<Rightarrow> (None, [])
                  | l # ls \<Rightarrow>
                      if contains l ''if (result.success)'' then scan_branch2 0 None ls
                      else (None, l # ls))
           in case append_log (Bound log) (call_lines (indent_of line) fs) of
                Inl e \<Rightarrow> Inl e
              | Inr new_lines \<Rightarrow> Inr (new_lines, rest3, Bound log)))"

definition pattern3_step :: "string \<Rightarrow> string list \<Rightarrow> error + (string list \<times> string list)" where
  "pattern3_step line rest =
     (case read_call no_fields rest of
        Inl e \<Rightarrow> Inl e
      | Inr (fs, rest1) \<Rightarrow> Inr (call_lines (indent_of line) fs, rest1))"

text \<open>The tests on the line under the cursor.\<close>

definition opens_inline :: "string \<Rightarrow> bool" where
  "opens_inline line =
     (re_search [L ''const result = await linearClient.createAgentActivity({''] line \<noteq> None)"

definition opens_activity_input :: "string \<Rightarrow> bool" where
  "opens_activity_input line = (re_search [L ''const activityInput = {''] line \<noteq> None)"

definition opens_await :: "string \<Rightarrow> bool" where
  "opens_await line =
     (re_search [L ''await linearClient.createAgentActivity({''] line \<noteq> None \<and>
      \<not> contains line ''const result'')"

definition two_parameter_form :: "string \<Rightarrow> bool" where
  "two_parameter_form line =
     (re_search [L ''await linearClient.createAgentActivity('', Plus (Not ''{''), L '','', Star Ws, L ''{'']
        line \<noteq> None)"

lemma read_call_length: "read_call fs ls = Inr (fs', ls') \<Longrightarrow> length ls' \<le> length ls"
  by (induction fs ls rule: read_call.induct)
     (auto split: if_splits sum.splits simp: Let_def le_SucI)

lemma scan_branch1_length: "scan_branch1 bc ef seen sl ls = (sl', ls') \<Longrightarrow> length ls' \<le> length ls"
  by (induction bc ef seen sl ls rule: scan_branch1.induct)
     (auto split: if_splits list.splits simp: Let_def le_SucI)

lemma read_input_length: "read_input fs ls = Inr (fs', ls') \<Longrightarrow> length ls' \<le> length ls"
  by (induction fs ls rule: read_input.induct)
     (auto split: if_splits sum.splits simp: Let_def le_SucI)

lemma skip_else_length: "length (skip_else bc ls) \<le> length ls"
  by (induction bc ls rule: skip_else.induct) (auto simp: Let_def le_SucI)

lemma scan_branch2_length: "scan_branch2 bc sl ls = (sl', ls') \<Longrightarrow> length ls' \<le> length ls"
  by (induction bc sl ls rule: scan_branch2.induct)
     (auto split: if_splits list.splits simp: Let_def le_SucI intro: le_trans[OF skip_else_length])

lemma skips_length: "length (skip_call (skip_blank (skip_closing ls))) \<le> length ls"
  by (auto simp: skip_call_def skip_blank_def skip_closing_def split: list.splits)

lemma pattern1_step_length:
  "pattern1_step g line rest = Inr (new, rest', g') \<Longrightarrow> length rest' \<le> length rest"
  by (auto simp: pattern1_step_def split: sum.splits list.splits if_splits prod.splits
      dest!: read_call_length scan_branch1_length)

lemma pattern2_step_length:
  assumes "pattern2_step line rest = Inr (new, rest', g')"
  shows "length rest' \<le> length rest"
proof -
  from assms obtain fs rest1 where r: "read_input no_fields rest = Inr (fs, rest1)"
    by (auto simp: pattern2_step_def split: sum.splits)
  define rest2 where "rest2 = skip_call (skip_blank (skip_closing rest1))"
  have a: "length rest2 \<le> length rest"
    using read_input_length[OF r] skips_length[of rest1] by (simp add: rest2_def)
  have "length rest' \<le> length rest2"
    using assms r
    by (auto simp: pattern2_step_def rest2_def[symmetric] split: sum.splits list.splits if_splits prod.splits
        dest!: scan_branch2_length)
  with a show ?thesis by simp
qed

lemma pattern3_step_length:
  "pattern3_step line rest = Inr (new, rest') \<Longrightarrow> length rest' \<le> length rest"
  by (auto simp: pattern3_step_def split: sum.splits dest!: read_call_length)

text \<open>The main loop. The result is the final list of lines, or the exception that
  ends the script before the file is written.\<close>

function fix_all :: "string option binding \<Rightarrow> string list \<Rightarrow> error + string list" where
  "fix_all success_log [] = Inr []"
| "fix_all success_log (line # rest) =
     (if opens_inline line then
        (case pattern1_step success_log line rest of
           Inl e \<Rightarrow> Inl e
         | Inr (new_lines, rest', log) \<Rightarrow>
             (case fix_all log rest' of Inl e \<Rightarrow> Inl e | Inr out \<Rightarrow> Inr (new_lines @ out)))
      else if opens_activity_input line then
        (case pattern2_step line rest of
           Inl e \<Rightarrow> Inl e
         | Inr (new_lines, rest', log) \<Rightarrow>
             (case fix_all log rest' of Inl e \<Rightarrow> Inl e | Inr out \<Rightarrow> Inr (new_lines @ out)))
      else if opens_await line then
        (if two_parameter_form line then
           (case fix_all success_log rest of Inl e \<Rightarrow> Inl e | Inr out \<Rightarrow> Inr (line # out))
         else
           (case pattern3_step line rest of
              Inl e \<Rightarrow> Inl e
            | Inr (new_lines, rest') \<Rightarrow>
                (case fix_all success_log rest' of Inl e \<Rightarrow> Inl e | Inr out \<Rightarrow> Inr (new_lines @ out))))
      else
        (case fix_all success_log rest of Inl e \<Rightarrow> Inl e | Inr out \<Rightarrow> Inr (line # out)))"
  by pat_completeness auto
termination
  by (relation "measure (\<lambda>(g, ls). length ls)")
     (auto dest: pattern1_step_length pattern2_step_length pattern3_step_length simp: le_imp_less_Suc)

text \<open>The script on the lines of the file: no variable is bound at the start.\<close>

definition fix_all_create_activity :: "string list \<Rightarrow> error + string list" where
  "fix_all_create_activity lines = fix_all Unbound lines"

section \<open>Facts about the model\<close>

subsection \<open>Matching and substitution\<close>

lemma strip_prefix_Some_iff: "strip_prefix l s = Some r \<longleftrightarrow> s = l @ r"
  by (induction l s rule: strip_prefix.induct) auto

lemma strip_prefix_append [simp]: "strip_prefix l (l @ s) = Some s"
  by (simp add: strip_prefix_Some_iff)



lemma first_down_top: "lo \<le> n \<Longrightarrow> f n = Some y \<Longrightarrow> first_down f lo n = Some y"
  by (cases n) auto


lemma seg_None_iff [simp]: "seg w r = None \<longleftrightarrow> r = None"
  by (simp add: seg_def)


lemma re_sub_no_match:
  "re_search p s = None \<Longrightarrow> re_sub p f s = s"
proof (induction s)
  case Nil
  then show ?case by (subst re_sub.simps) (auto split: option.splits)
next
  case (Cons c s)
  then show ?case by (subst re_sub.simps) (auto split: option.splits)
qed

subsection \<open>Letter case\<close>









lemma startswith_iff: "startswith s t \<longleftrightarrow> (\<exists>r. s = t @ r)"
  by (cases "strip_prefix t s") (auto simp: startswith_def strip_prefix_Some_iff)

lemma contains_iff: "contains s t \<longleftrightarrow> (\<exists>pre post. s = pre @ t @ post)"
proof (induction s)
  case Nil
  then show ?case by auto
next
  case (Cons c s)
  show ?case
  proof
    assume "contains (c # s) t"
    then consider "startswith (c # s) t" | "contains s t" by auto
    then show "\<exists>pre post. c # s = pre @ t @ post"
    proof cases
      case 1
      then obtain r where "c # s = t @ r" by (auto simp: startswith_iff)
      then have "c # s = [] @ t @ r" by simp
      then show ?thesis by blast
    next
      case 2
      with Cons obtain pre post where "s = pre @ t @ post" by blast
      then have "c # s = (c # pre) @ t @ post" by simp
      then show ?thesis by blast
    qed
  next
    assume "\<exists>pre post. c # s = pre @ t @ post"
    then obtain pre post where e: "c # s = pre @ t @ post" by blast
    show "contains (c # s) t"
    proof (cases pre)
      case Nil
      with e have "startswith (c # s) t" by (auto simp: startswith_iff)
      then show ?thesis by simp
    next
      case (Cons d pre')
      with e have "s = pre' @ t @ post" by simp
      with Cons.IH have "contains s t" by blast
      then show ?thesis by simp
    qed
  qed
qed

lemma replace_at_match:
  "old \<noteq> [] \<Longrightarrow> startswith s old \<Longrightarrow> replace s old new = new @ replace (drop (length old) s) old new"
  by (subst replace.simps) (cases s; cases old; simp add: startswith_def)

lemma replace_no_match_here:
  "old \<noteq> [] \<Longrightarrow> \<not> startswith (c # s) old \<Longrightarrow> replace (c # s) old new = c # replace s old new"
  by (subst replace.simps) simp

lemma replace_absent: "\<not> contains s old \<Longrightarrow> replace s old new = s"
proof (induction s)
  case Nil
  then show ?case by (subst replace.simps) simp
next
  case (Cons c s)
  then have "old \<noteq> []" by (auto simp: startswith_def)
  with Cons show ?case by (simp add: replace_no_match_here)
qed

lemma replace_first_occurrence:
  assumes "old \<noteq> []" and "\<not> contains (pre @ butlast old) old"
  shows "replace (pre @ old @ post) old new = pre @ new @ replace post old new"
  using assms(2)
proof (induction pre)
  case Nil
  have "startswith (old @ post) old" by (auto simp: startswith_iff)
  with assms(1) show ?case by (simp add: replace_at_match)
next
  case (Cons c pre)
  have a: "\<not> startswith (c # pre @ old @ post) old"
  proof
    assume "startswith (c # pre @ old @ post) old"
    then obtain r where r: "c # pre @ old @ post = old @ r" by (auto simp: startswith_iff)
    have "length old \<le> length (c # pre @ butlast old)" by simp
    moreover have "c # pre @ old @ post = (c # pre @ butlast old) @ (last old # post)"
      using assms(1) by simp
    ultimately have "take (length old) (c # pre @ butlast old) = old"
      using r by (metis append_eq_append_conv_if append_eq_conv_conj)
    then have "c # pre @ butlast old = old @ drop (length old) (c # pre @ butlast old)"
      by (metis append_take_drop_id)
    then have "startswith (c # pre @ butlast old) old" by (auto simp: startswith_iff)
    with Cons.prems show False by simp
  qed
  from Cons.prems have "\<not> contains (pre @ butlast old) old" by simp
  from Cons.IH[OF this] a assms(1) show ?case
    by (simp add: replace_no_match_here)
qed

subsection \<open>Following a match token by token\<close>

definition stops :: "cls \<Rightarrow> string \<Rightarrow> bool" where
  "stops k s = (case s of [] \<Rightarrow> True | c # _ \<Rightarrow> \<not> accepts k c)"

lemma stops_Cons [simp]: "stops k (c # s) = (\<not> accepts k c)"
  by (simp add: stops_def)


lemma takeWhile_run:
  "list_all P w \<Longrightarrow> (case s of [] \<Rightarrow> True | c # _ \<Rightarrow> \<not> P c) \<Longrightarrow> takeWhile P (w @ s) = w"
  by (induction w) (auto split: list.splits)

lemma nil_top: "rx_match [] s = Some ([], s)"
  by simp

lemma lit_top: "rx_match ts s = Some (segs, r) \<Longrightarrow> rx_match (L l # ts) (l @ s) = Some (l # segs, r)"
  by (simp add: seg_def)

lemma gopen_top: "rx_match ts s = Some (segs, r) \<Longrightarrow> rx_match (GOpen # ts) s = Some ([] # segs, r)"
  by (simp add: seg_def)

lemma gclose_top: "rx_match ts s = Some (segs, r) \<Longrightarrow> rx_match (GClose # ts) s = Some ([] # segs, r)"
  by (simp add: seg_def)

lemma plus_top:
  assumes "rx_match ts s = Some (segs, r)" "w \<noteq> []" "list_all (accepts k) w" "stops k s"
  shows "rx_match (Plus k # ts) (w @ s) = Some (w # segs, r)"
proof -
  have "takeWhile (accepts k) (w @ s) = w"
    using assms(3,4) by (intro takeWhile_run) (simp_all add: stops_def)
  moreover have "1 \<le> length w" using assms(2) by (cases w) auto
  ultimately show ?thesis
    using assms(1) by (simp add: first_down_top seg_def)
qed

lemma star_top:
  assumes "rx_match ts s = Some (segs, r)" "list_all (accepts k) w" "stops k s"
  shows "rx_match (Star k # ts) (w @ s) = Some (w # segs, r)"
proof -
  have "takeWhile (accepts k) (w @ s) = w"
    using assms(2,3) by (intro takeWhile_run) (simp_all add: stops_def)
  then show ?thesis
    using assms(1) by (simp add: first_down_top seg_def)
qed


lemmas match_steps = lit_top gopen_top gclose_top plus_top star_top nil_top



definition gap :: "string \<Rightarrow> bool" where
  "gap w = list_all isspace w"

lemma all_Ws [simp]: "list_all (accepts Ws) w = gap w"
  by (simp add: gap_def list_all_iff)

lemma all_Not1 [simp]: "list_all (accepts (Not [c])) w = (c \<notin> set w)"
  by (auto simp: list_all_iff)

lemma all_Only1 [simp]: "list_all (accepts (Only [c])) w = (set w \<subseteq> {c})"
  by (auto simp: list_all_iff)



subsection \<open>The segments of a match\<close>






subsection \<open>The idioms with a success branch\<close>









lemma nonspace2 [simp]: "\<not> isspace (CHR '','')" "\<not> isspace (CHR '')'')" "\<not> isspace DQ"
  by (simp_all add: isspace_def whitespace_def)




section \<open>Results\<close>

subsection \<open>The content-type constant\<close>





subsection \<open>The suffix rename\<close>

text \<open>
  C7. The rename is meant to turn every \<^verbatim>\<open>.parent\<close> that is not already
  \<^verbatim>\<open>.parentId\<close> into \<^verbatim>\<open>.parentId\<close>, so that a second run changes nothing. The
  pattern consumes the character after \<^verbatim>\<open>.parent\<close>; when that character is the dot of
  the next \<^verbatim>\<open>.parent\<close>, the second occurrence is skipped by the first run and renamed
  only by the second run.
\<close>

theorem parent_rename_skips_adjacent:
  "fix4_parent ''a.parent.parent;'' = ''a.parentId.parent;'' \<and>
   fix4_parent (fix4_parent ''a.parent.parent;'') = ''a.parentId.parentId;'' \<and>
   fix4_parent (fix4_parent ''a.parent.parent;'') \<noteq> fix4_parent ''a.parent.parent;''"
  unfolding fix4_parent_def by code_simp

subsection \<open>The literal-block rewriter\<close>

text \<open>
  C5. For each stored pair: when the old text does not occur in the content, the fix
  leaves the content as it is and prints the not-found line; when it occurs, the content
  becomes \<open>replace content old new\<close> and the fixed line is printed, and the first
  occurrence is replaced by the new text (the text before it is kept, the text after it
  is treated the same way). The script is the three fixes in a row; none can raise.
\<close>

theorem literal_block_fix:
  "(\<not> contains content old \<longrightarrow>
      apply_fix k old new (content, console) = (content, console @ [Could_not_find k])) \<and>
   (contains content old \<longrightarrow>
      apply_fix k old new (content, console) = (replace content old new, console @ [Fixed k])) \<and>
   (old \<noteq> [] \<and> \<not> contains (pre @ butlast old) old \<longrightarrow>
      contains (pre @ old @ post) old \<and>
      replace (pre @ old @ post) old new = pre @ new @ replace post old new) \<and>
   (\<not> contains post old \<longrightarrow> replace post old new = post) \<and>
   fix_last_three content =
     apply_fix 3 old3 new3 (apply_fix 2 old2 new2 (apply_fix 1 old1 new1 (content, [])))"
  by (auto simp: apply_fix_def fix_last_three_def replace_first_occurrence replace_absent contains_iff)

text \<open>The third stored block with one extra space after its first word.\<close>

definition old3_drifted :: string where
  "old3_drifted = take 5 old3 @ '' '' @ drop 5 old3"

theorem literal_block_fix_witness:
  "\<not> contains (''if (x) { '' @ old3_drifted @ '' }'') old3 \<and>
   apply_fix 3 old3 new3 (''if (x) { '' @ old3_drifted @ '' }'', []) =
     (''if (x) { '' @ old3_drifted @ '' }'', [Could_not_find 3]) \<and>
   contains (''if (x) { '' @ old3 @ '' }'') old3 \<and>
   apply_fix 3 old3 new3 (''if (x) { '' @ old3 @ '' }'', []) =
     (''if (x) { '' @ new3 @ '' }'', [Fixed 3])"
proof -
  have a: "\<not> contains (''if (x) { '' @ old3_drifted @ '' }'') old3" by code_simp
  have b: "old3 \<noteq> []" by code_simp
  have c: "\<not> contains (''if (x) { '' @ butlast old3) old3" by code_simp
  have d: "\<not> contains '' }'' old3" by code_simp
  from a b c d
    literal_block_fix [of "''if (x) { '' @ old3_drifted @ '' }''" old3 3 new3 "[]" "''if (x) { ''" "'' }''"]
    literal_block_fix [of "''if (x) { '' @ old3 @ '' }''" old3 3 new3 "[]" "''if (x) { ''" "'' }''"]
  show ?thesis by simp
qed

subsection \<open>A pattern that does not occur\<close>

text \<open>
  C9. A substitution whose pattern occurs nowhere in its input returns the input
  unchanged. In both regex scripts each substitution works on the result of the one
  before, so when one pattern does not occur the script's result is that of the other
  substitutions alone.
\<close>

theorem unmatched_pattern_is_noop:
  "(re_search p s = None \<longrightarrow> re_sub p f s = s) \<and>
   (re_search pattern1 c = None \<longrightarrow>
      fix_create_activity c =
        re_sub pattern3 fix_activity_input (re_sub pattern2 fix_await_no_result c)) \<and>
   (re_search pattern2 (re_sub pattern1 fix_inline_with_result c) = None \<longrightarrow>
      fix_create_activity c =
        re_sub pattern3 fix_activity_input (re_sub pattern1 fix_inline_with_result c)) \<and>
   (re_search pattern3 (re_sub pattern2 fix_await_no_result (re_sub pattern1 fix_inline_with_result c)) = None \<longrightarrow>
      fix_create_activity c =
        re_sub pattern2 fix_await_no_result (re_sub pattern1 fix_inline_with_result c)) \<and>
   (re_search fetchComments_pat d = None \<longrightarrow>
      fix_method_signatures d =
        fix4_parent (fix3_fetchWorkflowStates (fix2_fetchComment d))) \<and>
   (re_search fetchComment_pat (fix1_fetchComments d) = None \<longrightarrow>
      fix_method_signatures d =
        fix4_parent (fix3_fetchWorkflowStates (fix1_fetchComments d))) \<and>
   (re_search fetchWorkflowStates_pat (fix2_fetchComment (fix1_fetchComments d)) = None \<longrightarrow>
      fix_method_signatures d =
        fix4_parent (fix2_fetchComment (fix1_fetchComments d))) \<and>
   (re_search parent_pat (fix3_fetchWorkflowStates (fix2_fetchComment (fix1_fetchComments d))) = None \<longrightarrow>
      fix_method_signatures d =
        fix3_fetchWorkflowStates (fix2_fetchComment (fix1_fetchComments d)))"
  by (simp add: re_sub_no_match fix_create_activity_def fix_method_signatures_def
      fix1_fetchComments_def fix2_fetchComment_def fix3_fetchWorkflowStates_def fix4_parent_def)

definition sample_signatures :: string where
  "sample_signatures =
     ''const c = await linearClient.fetchComment({ id: n.id });'' @ [NL] @ ''return c.parent;''"

definition sample_call :: string where
  "sample_call =
     [TAB] @ ''await linearClient.createAgentActivity({'' @ [NL, TAB, TAB] @
     ''agentSessionId: sid,'' @ [NL, TAB, TAB] @ ''content: {'' @ [NL, TAB, TAB, TAB] @
     ''type: '' @ [DQ] @ ''thought'' @ [DQ] @ '','' @ [NL, TAB, TAB, TAB] @
     ''body: text,'' @ [NL, TAB, TAB] @ ''},'' @ [NL, TAB] @ ''});''"

theorem unmatched_pattern_is_noop_witness:
  "re_search fetchComments_pat sample_signatures = None \<and>
   re_search fetchWorkflowStates_pat (fix2_fetchComment (fix1_fetchComments sample_signatures)) = None \<and>
   fix_method_signatures sample_signatures =
     ''const c = await linearClient.fetchComment(n.id );'' @ [NL] @ ''return c.parentId;'' \<and>
   re_search pattern1 sample_call = None \<and>
   re_search pattern3 (re_sub pattern2 fix_await_no_result (re_sub pattern1 fix_inline_with_result sample_call)) = None \<and>
   fix_create_activity sample_call =
     [TAB] @ ''await linearClient.createAgentActivity(sid, {'' @ [NL, TAB, TAB] @
     ''type: AgentActivityContentType.Thought,'' @ [NL, TAB, TAB] @
     ''body: text,'' @ [NL, TAB, TAB] @ [NL, TAB] @ ''});''"
proof -
  have a: "re_search fetchComments_pat sample_signatures = None" by code_simp
  have b: "re_search fetchWorkflowStates_pat (fix2_fetchComment (fix1_fetchComments sample_signatures)) = None"
    by code_simp
  have c: "fix4_parent (fix2_fetchComment sample_signatures) =
     ''const c = await linearClient.fetchComment(n.id );'' @ [NL] @ ''return c.parentId;''"
    by code_simp
  have d: "re_search pattern1 sample_call = None" by code_simp
  have e: "re_search pattern3 (re_sub pattern2 fix_await_no_result (re_sub pattern1 fix_inline_with_result sample_call)) = None"
    by code_simp
  have g: "re_sub pattern2 fix_await_no_result sample_call =
     [TAB] @ ''await linearClient.createAgentActivity(sid, {'' @ [NL, TAB, TAB] @
     ''type: AgentActivityContentType.Thought,'' @ [NL, TAB, TAB] @
     ''body: text,'' @ [NL, TAB, TAB] @ [NL, TAB] @ ''});''"
    by code_simp
  from a b c d e g
    unmatched_pattern_is_noop [of fetchComments_pat sample_signatures fetchComments_repl sample_call sample_signatures]
    unmatched_pattern_is_noop [of pattern1 sample_call fix_inline_with_result sample_call sample_signatures]
  show ?thesis
    by (simp add: fix1_fetchComments_def fix3_fetchWorkflowStates_def)
qed

subsection \<open>The line-scanning rewriter without a success branch\<close>

text \<open>Two inputs as \<^verbatim>\<open>readlines\<close> returns them: an inline call with nothing but
  another statement after it, and the same call followed by the success/failure
  branch.\<close>

definition inline_call_no_branch :: "string list" where
  "inline_call_no_branch =
     [[TAB, TAB] @ ''const result = await linearClient.createAgentActivity({'' @ [NL],
      [TAB, TAB, TAB] @ ''agentSessionId: sessionId,'' @ [NL],
      [TAB, TAB, TAB] @ ''content: {'' @ [NL],
      [TAB, TAB, TAB, TAB] @ ''type: '' @ [DQ] @ ''thought'' @ [DQ] @ '','' @ [NL],
      [TAB, TAB, TAB, TAB] @ ''body: text,'' @ [NL],
      [TAB, TAB, TAB] @ ''},'' @ [NL],
      [TAB, TAB] @ ''});'' @ [NL],
      [TAB, TAB] @ ''foo();'' @ [NL]]"

definition inline_call_with_branch :: "string list" where
  "inline_call_with_branch =
     [[TAB, TAB] @ ''const result = await linearClient.createAgentActivity({'' @ [NL],
      [TAB, TAB, TAB] @ ''agentSessionId: parentId,'' @ [NL],
      [TAB, TAB, TAB] @ ''content: {'' @ [NL],
      [TAB, TAB, TAB, TAB] @ ''type: '' @ [DQ] @ ''response'' @ [DQ] @ '','' @ [NL],
      [TAB, TAB, TAB, TAB] @ ''body: answer,'' @ [NL],
      [TAB, TAB, TAB] @ ''},'' @ [NL],
      [TAB, TAB] @ ''});'' @ [NL],
      [TAB, TAB] @ ''if (result.success) {'' @ [NL],
      [TAB, TAB, TAB] @ ''console.log('' @ [DQ] @ ''Posted X'' @ [DQ] @ '');'' @ [NL],
      [TAB, TAB] @ ''} else {'' @ [NL],
      [TAB, TAB, TAB] @ ''console.error('' @ [DQ] @ ''Failed'' @ [DQ] @ '', result);'' @ [NL],
      [TAB, TAB] @ ''}'' @ [NL]]"

text \<open>
  C8. An inline call that is not followed by \<^verbatim>\<open>if (result.success)\<close> should be
  rewritten without a log line. \<^verbatim>\<open>success_log\<close> is assigned only inside the branch
  for \<^verbatim>\<open>if (result.success)\<close>, and read after it in any case. On a file whose first
  idiom has no branch the name is unbound and the script ends with NameError; after an
  idiom that had a branch, the log line of that earlier idiom is appended to the later
  call.
\<close>

theorem inline_call_without_branch:
  "fix_all_create_activity inline_call_no_branch = Inl NameError \<and>
   fix_all_create_activity (inline_call_with_branch @ inline_call_no_branch) =
     Inr [''await linearClient.createAgentActivity(parentId, {'' @ [NL],
          [TAB] @ ''type: AgentActivityContentType.Response,'' @ [NL],
          [TAB] @ ''body: answer,'' @ [NL],
          ''});'' @ [NL],
          [NL],
          [TAB, TAB, TAB] @ ''console.log('' @ [DQ] @ ''Posted X'' @ [DQ] @ '');'' @ [NL],
          [TAB, TAB, TAB] @ ''console.error('' @ [DQ] @ ''Failed'' @ [DQ] @ '', result);'' @ [NL],
          [TAB, TAB] @ ''}'' @ [NL],
          ''await linearClient.createAgentActivity(sessionId, {'' @ [NL],
          [TAB] @ ''type: AgentActivityContentType.Thought,'' @ [NL],
          [TAB] @ ''body: text,'' @ [NL],
          ''});'' @ [NL],
          [NL],
          [TAB, TAB, TAB] @ ''console.log('' @ [DQ] @ ''Posted X'' @ [DQ] @ '');'' @ [NL],
          [TAB, TAB] @ ''foo();'' @ [NL]]"
  by code_simp

subsection \<open>An idiom without a body line\<close>

lemma read_call_no_body_line:
  "list_all (\<lambda>l. \<not> contains l ''body:'') ls \<Longrightarrow> body_lines fs = [] \<Longrightarrow> \<not> body_started fs \<Longrightarrow>
   \<exists>fs' ls'. read_call fs ls = Inr (fs', ls') \<and> body_lines fs' = [] \<and> \<not> body_started fs'"
  by (induction fs ls rule: read_call.induct) (auto simp: Let_def)

lemma read_input_no_body_line:
  "list_all (\<lambda>l. \<not> contains l ''body:'') ls \<Longrightarrow> body_lines fs = [] \<Longrightarrow> \<not> body_started fs \<Longrightarrow>
   \<exists>fs' ls'. read_input fs ls = Inr (fs', ls') \<and> body_lines fs' = [] \<and> \<not> body_started fs'"
  by (induction fs ls rule: read_input.induct) (auto simp: Let_def)

lemma call_lines_placeholder:
  "body_lines fs = [] \<Longrightarrow>
   call_lines n fs ! 2 = replicate (n div 4) TAB @ [TAB] @ ''body: body,'' @ [NL]"
  by (simp add: call_lines_def Let_def)

text \<open>The part of C10 that holds: when no line after the opening line holds
  \<^verbatim>\<open>body:\<close>, the field loops of all three patterns end without an exception and with
  \<^verbatim>\<open>body_lines\<close> empty, patterns 2 and 3 always emit the call with the placeholder
  \<^verbatim>\<open>body\<close>, and pattern 1 does whenever it emits anything.\<close>

lemma placeholder_when_no_body_line:
  assumes "list_all (\<lambda>l. \<not> contains l ''body:'') rest"
  shows "(\<exists>fs rest'. pattern3_step line rest = Inr (call_lines (indent_of line) fs, rest') \<and>
            body_lines fs = []) \<and>
         (\<exists>fs log rest' g'. pattern2_step line rest = Inr (call_lines (indent_of line) fs @ log, rest', g') \<and>
            body_lines fs = []) \<and>
         (\<forall>new rest' g'. pattern1_step g line rest = Inr (new, rest', g') \<longrightarrow>
            (\<exists>fs log. new = call_lines (indent_of line) fs @ [[NL]] @ log \<and> body_lines fs = []))"
proof -
  from read_call_no_body_line[OF assms, of no_fields]
  obtain fs r1 where a: "read_call no_fields rest = Inr (fs, r1)" "body_lines fs = []"
    by (auto simp: no_fields_def)
  from read_input_no_body_line[OF assms, of no_fields]
  obtain fs2 r2 where b: "read_input no_fields rest = Inr (fs2, r2)" "body_lines fs2 = []"
    by (auto simp: no_fields_def)
  have 3: "\<exists>fs rest'. pattern3_step line rest = Inr (call_lines (indent_of line) fs, rest') \<and> body_lines fs = []"
    using a by (auto simp: pattern3_step_def)
  have 2: "\<exists>fs log rest' g'. pattern2_step line rest = Inr (call_lines (indent_of line) fs @ log, rest', g') \<and> body_lines fs = []"
    using b by (auto simp: pattern2_step_def append_log_def Let_def split: prod.splits option.splits list.splits)
  have 1: "\<forall>new rest' g'. pattern1_step g line rest = Inr (new, rest', g') \<longrightarrow>
            (\<exists>fs log. new = call_lines (indent_of line) fs @ [[NL]] @ log \<and> body_lines fs = [])"
    using a by (auto simp: pattern1_step_def append_log_def Let_def
        split: prod.splits option.splits list.splits binding.splits if_splits)
  from 1 2 3 show ?thesis by blast
qed

text \<open>An inline call and a call without \<^verbatim>\<open>const result\<close>, both without a \<^verbatim>\<open>body:\<close>
  line and without a success branch.\<close>

definition inline_call_no_body :: "string list" where
  "inline_call_no_body =
     [[TAB, TAB] @ ''const result = await linearClient.createAgentActivity({'' @ [NL],
      [TAB, TAB, TAB] @ ''agentSessionId: sessionId,'' @ [NL],
      [TAB, TAB, TAB] @ ''content: { type: '' @ [DQ] @ ''thought'' @ [DQ] @ '' },'' @ [NL],
      [TAB, TAB] @ ''});'' @ [NL]]"

definition await_call_no_body :: "string list" where
  "await_call_no_body =
     [[TAB, TAB] @ ''await linearClient.createAgentActivity({'' @ [NL],
      [TAB, TAB, TAB] @ ''agentSessionId: sessionId,'' @ [NL],
      [TAB, TAB, TAB] @ ''content: { type: '' @ [DQ] @ ''thought'' @ [DQ] @ '' },'' @ [NL],
      [TAB, TAB] @ ''});'' @ [NL]]"

text \<open>
  C10. An idiom without a \<^verbatim>\<open>body:\<close> line should be emitted with the placeholder
  \<^verbatim>\<open>body\<close> instead of failing. The call without \<^verbatim>\<open>const result\<close> is; the inline
  call that is the first idiom of the file and has no success branch ends the script
  with NameError, by the unbound \<^verbatim>\<open>success_log\<close> of C8.
\<close>

theorem inline_call_without_body_and_branch:
  "fix_all_create_activity inline_call_no_body = Inl NameError \<and>
   fix_all_create_activity await_call_no_body =
     Inr [''await linearClient.createAgentActivity(sessionId, {'' @ [NL],
          [TAB] @ ''type: AgentActivityContentType.Thought,'' @ [NL],
          [TAB] @ ''body: body,'' @ [NL],
          ''});'' @ [NL]]"
  by code_simp

subsection \<open>The fetch signatures\<close>











subsection \<open>The idioms with a success branch, rewritten\<close>











end
